theory Spec2Isabelle
  imports Complex_Main
begin

section \<open>Python primitives used by OptiTrack.py\<close>

text \<open>
  The decoders of OptiTrack.py work on rows produced by \<open>csv.reader\<close>: a row is a list
  of strings. Everything that can raise in the source is a branch of the model:
  \<^item> \<open>int(s)\<close> and \<open>float(s)\<close> raise \<open>ValueError\<close>; the message of that exception names
    the builtin and quotes the text it was given, and nothing else;
  \<^item> \<open>fields[i]\<close> raises \<open>IndexError\<close> when \<open>i\<close> is out of range, and counts from the
    end when \<open>i\<close> is negative;
  \<^item> \<open>Frame\<close> and \<open>Trackable\<close> raise a plain \<open>Exception\<close> on a wrong leading tag.
\<close>

datatype numkind = IntLit | FloatLit

datatype error =
    ValueError numkind string
  | IndexError
  | TagException

definition bindE :: "error + 'a \<Rightarrow> ('a \<Rightarrow> error + 'b) \<Rightarrow> error + 'b" where
  "bindE m f = (case m of Inl e \<Rightarrow> Inl e | Inr v \<Rightarrow> f v)"

definition py_index :: "'a list \<Rightarrow> int \<Rightarrow> error + 'a" where
  \<comment> \<open>\<open>xs[i]\<close>\<close>
  "py_index xs i =
     (if 0 \<le> i \<and> i < int (length xs) then Inr (xs ! nat i)
      else if i < 0 \<and> - int (length xs) \<le> i then Inr (xs ! nat (int (length xs) + i))
      else Inl IndexError)"

definition slice_bound :: "int \<Rightarrow> int \<Rightarrow> int" where
  \<comment> \<open>how a slice clips one of its bounds to a sequence of length \<open>n\<close>\<close>
  "slice_bound n i = (if i < 0 then max (n + i) 0 else min i n)"

definition py_slice :: "'a list \<Rightarrow> int \<Rightarrow> int \<Rightarrow> 'a list" where
  \<comment> \<open>\<open>xs[i:j]\<close>: never raises, may be shorter than \<open>j - i\<close>\<close>
  "py_slice xs i j =
     (let n = int (length xs); a = slice_bound n i; b = slice_bound n j
      in take (nat (b - a)) (drop (nat a) xs))"

definition lower_char :: "char \<Rightarrow> char" where
  "lower_char c =
     (let k = (of_char c :: nat) in if 65 \<le> k \<and> k \<le> 90 then char_of (k + 32) else c)"

definition lower :: "string \<Rightarrow> string" where
  \<comment> \<open>\<open>s.lower()\<close> on a byte string\<close>
  "lower s = map lower_char s"

text \<open>
  The builtins \<open>int\<close> and \<open>float\<close> are parameters of the model: \<open>I s\<close> is the integer
  \<open>int(s)\<close> returns, \<open>None\<close> where it raises, and \<open>F s\<close> likewise for \<open>float(s)\<close>, with
  the type of floating-point values left open.
\<close>

definition py_int :: "(string \<Rightarrow> int option) \<Rightarrow> string \<Rightarrow> error + int" where
  "py_int I s = (case I s of None \<Rightarrow> Inl (ValueError IntLit s) | Some n \<Rightarrow> Inr n)"

definition py_float :: "(string \<Rightarrow> 'f option) \<Rightarrow> string \<Rightarrow> error + 'f" where
  "py_float F s = (case F s of None \<Rightarrow> Inl (ValueError FloatLit s) | Some v \<Rightarrow> Inr v)"

definition int_at :: "(string \<Rightarrow> int option) \<Rightarrow> string list \<Rightarrow> int \<Rightarrow> error + int" where
  \<comment> \<open>\<open>int(fields[i])\<close>\<close>
  "int_at I flds i = bindE (py_index flds i) (py_int I)"

definition float_at :: "(string \<Rightarrow> 'f option) \<Rightarrow> string list \<Rightarrow> int \<Rightarrow> error + 'f" where
  \<comment> \<open>\<open>float(fields[i])\<close>\<close>
  "float_at F flds i = bindE (py_index flds i) (py_float F)"

section \<open>Constants and records\<close>

definition LEFT_HANDED :: int where "LEFT_HANDED = 0"
definition RIGHT_HANDED :: int where "RIGHT_HANDED = 1"
definition TSL :: int where "TSL = 11"
definition MSL :: int where "MSL = 3"

record 'f Position =
  pos_x :: 'f
  pos_y :: 'f
  pos_z :: 'f

record 'f QRot =
  qx :: 'f
  qy :: 'f
  qz :: 'f
  qw :: 'f

record 'f ERot =
  yaw :: 'f
  pitch :: 'f
  roll :: 'f

record 'f Marker =
  marker_id :: "string option"
  marker_pos :: "'f Position"

record 'f TrackableMarker = "'f Marker" +
  tracked :: string
  quality :: string

record 'f TrackableState =
  ts_id :: int
  ts_pos :: "'f Position"
  ts_qrot :: "'f QRot"
  ts_erot :: "'f ERot"

record 'f Trackable =
  tr_name :: string
  tr_id :: int
  tr_num_markers :: int
  tr_markers :: "'f Position list"

record 'f Frame =
  fr_index :: int
  fr_timestamp :: 'f
  fr_trackable_count :: int
  fr_trackable_states :: "'f TrackableState list"
  fr_marker_count :: int
  fr_markers :: "'f Marker list"

record 'f TrackableFrame =
  tf_markers :: "'f TrackableMarker list"
  tf_ptcld_markers :: "'f Marker list"
  tf_index :: int
  tf_timestamp :: 'f
  tf_name :: string
  tf_id :: int
  tf_last_tracked :: int
  tf_marker_count :: int
  tf_mean_error :: 'f

record 'f Run =
  trackables :: "'f Trackable list"
  frames :: "'f Frame list"
  trackable_frames :: "'f TrackableFrame list"
  coord_type :: int
  framecount :: int
  trackablecount :: int

section \<open>Leaf constructors\<close>

definition Position_init :: "(string \<Rightarrow> 'f option) \<Rightarrow> string list \<Rightarrow> error + 'f Position" where
  "Position_init F flds =
     bindE (float_at F flds 0) (\<lambda>x.
     bindE (float_at F flds 1) (\<lambda>y.
     bindE (float_at F flds 2) (\<lambda>z.
     Inr \<lparr>pos_x = x, pos_y = y, pos_z = z\<rparr>)))"

definition QRot_init :: "(string \<Rightarrow> 'f option) \<Rightarrow> string list \<Rightarrow> error + 'f QRot" where
  "QRot_init F flds =
     bindE (float_at F flds 0) (\<lambda>a.
     bindE (float_at F flds 1) (\<lambda>b.
     bindE (float_at F flds 2) (\<lambda>c.
     bindE (float_at F flds 3) (\<lambda>d.
     Inr \<lparr>qx = a, qy = b, qz = c, qw = d\<rparr>))))"

definition ERot_init :: "(string \<Rightarrow> 'f option) \<Rightarrow> string list \<Rightarrow> error + 'f ERot" where
  "ERot_init F flds =
     bindE (float_at F flds 0) (\<lambda>a.
     bindE (float_at F flds 1) (\<lambda>b.
     bindE (float_at F flds 2) (\<lambda>c.
     Inr \<lparr>yaw = a, pitch = b, roll = c\<rparr>)))"

definition Marker_init ::
  "(string \<Rightarrow> 'f option) \<Rightarrow> string option \<Rightarrow> string list \<Rightarrow> error + 'f Marker" where
  "Marker_init F ident pos =
     bindE (Position_init F pos) (\<lambda>p. Inr \<lparr>marker_id = ident, marker_pos = p\<rparr>)"

definition TrackableMarker_init ::
  "(string \<Rightarrow> 'f option) \<Rightarrow> string option \<Rightarrow> string list \<Rightarrow> string \<Rightarrow> string
     \<Rightarrow> error + 'f TrackableMarker" where
  "TrackableMarker_init F ident pos trk qual =
     bindE (Marker_init F ident pos) (\<lambda>m.
     Inr \<lparr>marker_id = marker_id m, marker_pos = marker_pos m, tracked = trk, quality = qual\<rparr>)"

definition TrackableState_init ::
  "(string \<Rightarrow> int option) \<Rightarrow> (string \<Rightarrow> 'f option) \<Rightarrow> string list
     \<Rightarrow> error + 'f TrackableState" where
  "TrackableState_init I F flds =
     bindE (int_at I flds 0) (\<lambda>i.
     bindE (Position_init F (py_slice flds 1 4)) (\<lambda>p.
     bindE (QRot_init F (py_slice flds 4 8)) (\<lambda>q.
     bindE (ERot_init F (py_slice flds 8 11)) (\<lambda>e.
     Inr \<lparr>ts_id = i, ts_pos = p, ts_qrot = q, ts_erot = e\<rparr>))))"

section \<open>Trackable\<close>

text \<open>
  The loop \<open>for i in range(n): ...; idx += MSL\<close> as a recursion on the number of
  iterations left; it returns what it appended and the cursor it ends with.
\<close>

fun Trackable_markers ::
  "(string \<Rightarrow> 'f option) \<Rightarrow> string list \<Rightarrow> nat \<Rightarrow> int \<Rightarrow> error + ('f Position list \<times> int)" where
  "Trackable_markers F flds 0 idx = Inr ([], idx)"
| "Trackable_markers F flds (Suc n) idx =
     bindE (Position_init F (py_slice flds idx (idx + MSL))) (\<lambda>p.
     bindE (Trackable_markers F flds n (idx + MSL)) (\<lambda>(ps, idx').
     Inr (p # ps, idx')))"

definition Trackable_init ::
  "(string \<Rightarrow> int option) \<Rightarrow> (string \<Rightarrow> 'f option) \<Rightarrow> string list \<Rightarrow> error + 'f Trackable" where
  "Trackable_init I F flds =
     bindE (py_index flds 0) (\<lambda>tag.
     if lower tag \<noteq> ''trackable'' then Inl TagException
     else
       bindE (py_index flds 1) (\<lambda>name.
       bindE (int_at I flds 2) (\<lambda>ident.
       bindE (int_at I flds 3) (\<lambda>num.
       bindE (Trackable_markers F flds (nat num) 4) (\<lambda>(ms, idx).
       Inr \<lparr>tr_name = name, tr_id = ident, tr_num_markers = num, tr_markers = ms\<rparr>)))))"

section \<open>Frame\<close>

fun Frame_states ::
  "(string \<Rightarrow> int option) \<Rightarrow> (string \<Rightarrow> 'f option) \<Rightarrow> string list \<Rightarrow> nat \<Rightarrow> int
     \<Rightarrow> error + ('f TrackableState list \<times> int)" where
  "Frame_states I F flds 0 idx = Inr ([], idx)"
| "Frame_states I F flds (Suc n) idx =
     bindE (TrackableState_init I F (py_slice flds idx (idx + TSL))) (\<lambda>s.
     bindE (Frame_states I F flds n (idx + TSL)) (\<lambda>(ss, idx').
     Inr (s # ss, idx')))"

fun Frame_markers ::
  "(string \<Rightarrow> 'f option) \<Rightarrow> string list \<Rightarrow> nat \<Rightarrow> int \<Rightarrow> error + ('f Marker list \<times> int)" where
  "Frame_markers F flds 0 idx = Inr ([], idx)"
| "Frame_markers F flds (Suc n) idx =
     bindE (py_index flds (idx + MSL)) (\<lambda>ident.
     bindE (Marker_init F (Some ident) (py_slice flds idx (idx + MSL))) (\<lambda>m.
     bindE (Frame_markers F flds n (idx + 4)) (\<lambda>(ms, idx').
     Inr (m # ms, idx'))))"

definition Frame_init ::
  "(string \<Rightarrow> int option) \<Rightarrow> (string \<Rightarrow> 'f option) \<Rightarrow> string list \<Rightarrow> error + 'f Frame" where
  "Frame_init I F flds =
     bindE (py_index flds 0) (\<lambda>tag.
     if lower tag \<noteq> ''frame'' then Inl TagException
     else
       bindE (int_at I flds 1) (\<lambda>index.
       bindE (float_at F flds 2) (\<lambda>ts.
       bindE (int_at I flds 3) (\<lambda>tc.
       bindE (if tc > 0 then Frame_states I F flds (nat tc) 4 else Inr ([], 4)) (\<lambda>(ss, idx).
       bindE (int_at I flds idx) (\<lambda>mc.
       bindE (Frame_markers F flds (nat mc) (idx + 1)) (\<lambda>(ms, idx').
       Inr \<lparr>fr_index = index, fr_timestamp = ts, fr_trackable_count = tc,
            fr_trackable_states = ss, fr_marker_count = mc, fr_markers = ms\<rparr>)))))))"

section \<open>TrackableFrame\<close>

text \<open>
  The first loop of \<open>TrackableFrame.__init__\<close>: \<open>M\<close> is \<open>self.marker_count\<close>, \<open>i\<close> the
  loop variable and \<open>idx\<close> the cursor, which the loop itself advances.
\<close>

fun TrackableFrame_markers ::
  "(string \<Rightarrow> 'f option) \<Rightarrow> string list \<Rightarrow> int \<Rightarrow> nat \<Rightarrow> int \<Rightarrow> int
     \<Rightarrow> error + ('f TrackableMarker list \<times> int)" where
  "TrackableFrame_markers F flds M 0 i idx = Inr ([], idx)"
| "TrackableFrame_markers F flds M (Suc n) i idx =
     bindE (py_index flds (idx + (M - i) * MSL + M * MSL + i)) (\<lambda>trk.
     bindE (py_index flds (idx + (M - i) * MSL + M * MSL + M + i)) (\<lambda>qual.
     bindE (TrackableMarker_init F None (py_slice flds idx (idx + MSL)) trk qual) (\<lambda>m.
     bindE (TrackableFrame_markers F flds M n (i + 1) (idx + MSL)) (\<lambda>(ms, idx').
     Inr (m # ms, idx')))))"

fun TrackableFrame_ptcld ::
  "(string \<Rightarrow> 'f option) \<Rightarrow> string list \<Rightarrow> nat \<Rightarrow> int \<Rightarrow> error + ('f Marker list \<times> int)" where
  "TrackableFrame_ptcld F flds 0 idx = Inr ([], idx)"
| "TrackableFrame_ptcld F flds (Suc n) idx =
     bindE (Marker_init F None (py_slice flds idx (idx + MSL))) (\<lambda>m.
     bindE (TrackableFrame_ptcld F flds n (idx + MSL)) (\<lambda>(ms, idx').
     Inr (m # ms, idx')))"

definition TrackableFrame_init ::
  "(string \<Rightarrow> int option) \<Rightarrow> (string \<Rightarrow> 'f option) \<Rightarrow> string list
     \<Rightarrow> error + 'f TrackableFrame" where
  "TrackableFrame_init I F flds =
     bindE (int_at I flds 1) (\<lambda>index.
     bindE (float_at F flds 2) (\<lambda>ts.
     bindE (py_index flds 3) (\<lambda>name.
     bindE (int_at I flds 4) (\<lambda>ident.
     bindE (int_at I flds 5) (\<lambda>lt.
     bindE (int_at I flds 6) (\<lambda>M.
     bindE (TrackableFrame_markers F flds M (nat M) 0 7) (\<lambda>(ms, idx).
     bindE (TrackableFrame_ptcld F flds (nat M) idx) (\<lambda>(ps, idx').
     bindE (float_at F flds (idx' + 2 * M)) (\<lambda>me.
     Inr \<lparr>tf_markers = ms, tf_ptcld_markers = ps, tf_index = index, tf_timestamp = ts,
          tf_name = name, tf_id = ident, tf_last_tracked = lt, tf_marker_count = M,
          tf_mean_error = me\<rparr>)))))))))"

section \<open>Run\<close>

definition Run_init :: "'f Run" where
  "Run_init = \<lparr>trackables = [], frames = [], trackable_frames = [],
     coord_type = RIGHT_HANDED, framecount = 0, trackablecount = 0\<rparr>"

text \<open>
  What one pass through the body of \<open>while(1)\<close> leaves behind: the rows still unread
  when the body ran to its end, \<open>StopIteration\<close> when \<open>fp.next()\<close> found no row (the
  \<open>except\<close> clause ends the load), or the exception that leaves \<open>ReadFile\<close>. The \<open>Run\<close>
  is returned in every case, with the assignments made before an exception.
\<close>

datatype flow = Continue "string list list" | StopIteration | Raised error

fun read_trackables ::
  "(string \<Rightarrow> int option) \<Rightarrow> (string \<Rightarrow> 'f option) \<Rightarrow> nat \<Rightarrow> string list list \<Rightarrow> 'f Run
     \<Rightarrow> 'f Run \<times> flow" where
  "read_trackables I F 0 rest r = (r, Continue rest)"
| "read_trackables I F (Suc n) [] r = (r, StopIteration)"
| "read_trackables I F (Suc n) (row # rest) r =
     (case Trackable_init I F row of
        Inl e \<Rightarrow> (r, Raised e)
      | Inr t \<Rightarrow> read_trackables I F n rest (r\<lparr>trackables := trackables r @ [t]\<rparr>))"

definition ReadFile_body ::
  "(string \<Rightarrow> int option) \<Rightarrow> (string \<Rightarrow> 'f option) \<Rightarrow> 'f Run \<Rightarrow> string list
     \<Rightarrow> string list list \<Rightarrow> 'f Run \<times> flow" where
  "ReadFile_body I F r flds rest =
     (case py_index flds 0 of
        Inl e \<Rightarrow> (r, Raised e)
      | Inr f0 \<Rightarrow>
          if lower f0 = ''comment'' then (r, Continue rest)
          else if lower f0 = ''righthanded'' then (r\<lparr>coord_type := RIGHT_HANDED\<rparr>, Continue rest)
          else
            let r1 = r\<lparr>coord_type := LEFT_HANDED\<rparr> in
            if lower f0 = ''info'' then
              (case py_index flds 1 of
                 Inl e \<Rightarrow> (r1, Raised e)
               | Inr f1 \<Rightarrow>
                   if lower f1 = ''framecount'' then
                     (case int_at I flds 2 of
                        Inl e \<Rightarrow> (r1, Raised e)
                      | Inr n \<Rightarrow> (r1\<lparr>framecount := n\<rparr>, Continue rest))
                   else if lower f1 = ''trackablecount'' then
                     (case int_at I flds 2 of
                        Inl e \<Rightarrow> (r1, Raised e)
                      | Inr n \<Rightarrow>
                          let r2 = r1\<lparr>trackablecount := n\<rparr> in
                          if n > 0 then read_trackables I F (nat n) rest r2
                          else (r2, Continue rest))
                   else (r1, Continue rest))
            else if lower f0 = ''frame'' then
              (case Frame_init I F flds of
                 Inl e \<Rightarrow> (r1, Raised e)
               | Inr fr \<Rightarrow> (r1\<lparr>frames := frames r1 @ [fr]\<rparr>, Continue rest))
            else if lower f0 = ''trackable'' then
              (case TrackableFrame_init I F flds of
                 Inl e \<Rightarrow> (r1, Raised e)
               | Inr tf \<Rightarrow> (r1\<lparr>trackable_frames := trackable_frames r1 @ [tf]\<rparr>, Continue rest))
            else (r1, Continue rest))"

lemma read_trackables_length:
  "read_trackables I F n rest r = (r', Continue rest') \<Longrightarrow> length rest' \<le> length rest"
proof (induction n arbitrary: rest r)
  case 0
  then show ?case by simp
next
  case (Suc n)
  show ?case
  proof (cases rest)
    case Nil
    with Suc.prems show ?thesis by simp
  next
    case (Cons row rows)
    with Suc.prems Suc.IH show ?thesis
      by (fastforce split: sum.splits)
  qed
qed

lemma ReadFile_body_length:
  "ReadFile_body I F r flds rest = (r', Continue rest') \<Longrightarrow> length rest' \<le> length rest"
  unfolding ReadFile_body_def Let_def
  by (auto split: sum.splits if_splits dest: read_trackables_length)

text \<open>
  \<open>ReadFile\<close> on the rows the reader yields: the \<open>Run\<close> it leaves and the exception that
  left it, if any. Running out of rows is the only way the loop ends without one.
\<close>

function ReadFile ::
  "(string \<Rightarrow> int option) \<Rightarrow> (string \<Rightarrow> 'f option) \<Rightarrow> 'f Run \<Rightarrow> string list list
     \<Rightarrow> 'f Run \<times> error option" where
  "ReadFile I F r [] = (r, None)"
| "ReadFile I F r (flds # rest) =
     (case ReadFile_body I F r flds rest of
        (r', Continue rest') \<Rightarrow> ReadFile I F r' rest'
      | (r', StopIteration) \<Rightarrow> (r', None)
      | (r', Raised e) \<Rightarrow> (r', Some e))"
  by pat_completeness auto
termination
proof (relation "measure (\<lambda>(I, F, r, rows). length rows)", goal_cases)
  case 1
  show ?case by simp
next
  case (2 I F r flds rest r' fl rest')
  then have "ReadFile_body I F r flds rest = (r', Continue rest')" by simp
  then have "length rest' \<le> length rest" by (rule ReadFile_body_length)
  then show ?case by simp
qed

section \<open>A decimal instance of the builtins\<close>

text \<open>
  Concrete rows need concrete builtins. \<open>dec_int\<close> reads an optional minus sign and
  decimal digits; \<open>dec_float\<close> reads the same with an optional fractional part, as a
  rational. On such literals they return what \<open>int\<close> and \<open>float\<close> return (the literals
  used below are binary fractions), and they reject \<open>1.5.3\<close> and words. They are used
  only to run the decoders on concrete rows.
\<close>

definition digit_of :: "char \<Rightarrow> nat option" where
  "digit_of c =
     (let k = (of_char c :: nat) in if 48 \<le> k \<and> k \<le> 57 then Some (k - 48) else None)"

fun digits_of :: "string \<Rightarrow> nat \<Rightarrow> nat option" where
  "digits_of [] acc = Some acc"
| "digits_of (c # cs) acc =
     (case digit_of c of None \<Rightarrow> None | Some d \<Rightarrow> digits_of cs (10 * acc + d))"

definition dec_nat :: "string \<Rightarrow> nat option" where
  "dec_nat s = (if s = [] then None else digits_of s 0)"

definition dec_int :: "string \<Rightarrow> int option" where
  "dec_int s =
     (case s of
        [] \<Rightarrow> None
      | c # cs \<Rightarrow>
          if c = CHR ''-'' then map_option (\<lambda>n. - int n) (dec_nat cs)
          else map_option int (dec_nat s))"

definition dec_float :: "string \<Rightarrow> rat option" where
  "dec_float s =
     (let ip = takeWhile (\<lambda>c. c \<noteq> CHR ''.'') s; rest = dropWhile (\<lambda>c. c \<noteq> CHR ''.'') s
      in case rest of
           [] \<Rightarrow> map_option of_int (dec_int ip)
         | dot # fp \<Rightarrow>
             (case (dec_int ip, dec_nat fp) of
                (Some a, Some b) \<Rightarrow>
                  Some (of_int a + (if a < 0 then - 1 else 1) * of_nat b / 10 ^ length fp)
              | _ \<Rightarrow> None))"

definition trackable_row :: "string list" where
  "trackable_row =
     [''Trackable'', ''body'', ''7'', ''2'', ''0.5'', ''1.5'', ''2.5'', ''3.5'', ''4.5'', ''5.5'']"

definition trackable_value :: "rat Trackable" where
  "trackable_value =
     \<lparr>tr_name = ''body'', tr_id = 7, tr_num_markers = 2,
      tr_markers = [\<lparr>pos_x = 1 / 2, pos_y = 3 / 2, pos_z = 5 / 2\<rparr>,
                    \<lparr>pos_x = 7 / 2, pos_y = 9 / 2, pos_z = 11 / 2\<rparr>]\<rparr>"

definition trackable_row2 :: "string list" where
  "trackable_row2 = [''trackable'', ''wand'', ''8'', ''1'', ''0.25'', ''0.75'', ''1.25'']"

definition trackable_value2 :: "rat Trackable" where
  "trackable_value2 =
     \<lparr>tr_name = ''wand'', tr_id = 8, tr_num_markers = 1,
      tr_markers = [\<lparr>pos_x = 1 / 4, pos_y = 3 / 4, pos_z = 5 / 4\<rparr>]\<rparr>"

definition frame_row :: "string list" where
  "frame_row =
     [''Frame'', ''12'', ''0.5'', ''1'',
      ''3'', ''1.5'', ''2.5'', ''3.5'', ''0.25'', ''0.5'', ''0.75'', ''1'', ''10'', ''20'', ''30'',
      ''2'',
      ''4.5'', ''5.5'', ''6.5'', ''m1'',
      ''7.5'', ''8.5'', ''9.5'', ''m2'']"

definition frame_value :: "rat Frame" where
  "frame_value =
     \<lparr>fr_index = 12, fr_timestamp = 1 / 2, fr_trackable_count = 1,
      fr_trackable_states =
        [\<lparr>ts_id = 3, ts_pos = \<lparr>pos_x = 3 / 2, pos_y = 5 / 2, pos_z = 7 / 2\<rparr>,
          ts_qrot = \<lparr>qx = 1 / 4, qy = 1 / 2, qz = 3 / 4, qw = 1\<rparr>,
          ts_erot = \<lparr>yaw = 10, pitch = 20, roll = 30\<rparr>\<rparr>],
      fr_marker_count = 2,
      fr_markers =
        [\<lparr>marker_id = Some ''m1'', marker_pos = \<lparr>pos_x = 9 / 2, pos_y = 11 / 2, pos_z = 13 / 2\<rparr>\<rparr>,
         \<lparr>marker_id = Some ''m2'', marker_pos = \<lparr>pos_x = 15 / 2, pos_y = 17 / 2, pos_z = 19 / 2\<rparr>\<rparr>]\<rparr>"

definition tf_row :: "string list" where
  "tf_row =
     [''trackable'', ''5'', ''0.5'', ''body'', ''7'', ''4'', ''2'',
      ''1.5'', ''2.5'', ''3.5'',
      ''4.5'', ''5.5'', ''6.5'',
      ''10.5'', ''11.5'', ''12.5'',
      ''13.5'', ''14.5'', ''15.5'',
      ''t0'', ''t1'',
      ''q0'', ''q1'',
      ''0.125'']"

definition tf_value :: "rat TrackableFrame" where
  "tf_value =
     \<lparr>tf_markers =
        [\<lparr>marker_id = None, marker_pos = \<lparr>pos_x = 3 / 2, pos_y = 5 / 2, pos_z = 7 / 2\<rparr>,
          tracked = ''t0'', quality = ''q0''\<rparr>,
         \<lparr>marker_id = None, marker_pos = \<lparr>pos_x = 9 / 2, pos_y = 11 / 2, pos_z = 13 / 2\<rparr>,
          tracked = ''t1'', quality = ''q1''\<rparr>],
      tf_ptcld_markers =
        [\<lparr>marker_id = None, marker_pos = \<lparr>pos_x = 21 / 2, pos_y = 23 / 2, pos_z = 25 / 2\<rparr>\<rparr>,
         \<lparr>marker_id = None, marker_pos = \<lparr>pos_x = 27 / 2, pos_y = 29 / 2, pos_z = 31 / 2\<rparr>\<rparr>],
      tf_index = 5, tf_timestamp = 1 / 2, tf_name = ''body'', tf_id = 7, tf_last_tracked = 4,
      tf_marker_count = 2, tf_mean_error = 1 / 8\<rparr>"

section \<open>Basic facts about the primitives\<close>

lemma bindE_Inl [simp]: "bindE (Inl e) f = Inl e"
  by (simp add: bindE_def)

lemma bindE_Inr [simp]: "bindE (Inr v) f = f v"
  by (simp add: bindE_def)

lemma bindE_eq_Inr: "bindE m f = Inr y \<longleftrightarrow> (\<exists>v. m = Inr v \<and> f v = Inr y)"
  by (cases m) simp_all

lemma py_index_nonneg:
  "0 \<le> i \<Longrightarrow> py_index xs i = (if i < int (length xs) then Inr (xs ! nat i) else Inl IndexError)"
  by (simp add: py_index_def)

lemma py_slice_nonneg:
  "0 \<le> i \<Longrightarrow> i \<le> j \<Longrightarrow> py_slice xs i j = take (nat (j - i)) (drop (nat i) xs)"
  by (auto simp: py_slice_def slice_bound_def Let_def min_def)

lemma float_at_eq_Inr:
  "float_at F xs i = Inr v \<Longrightarrow> 0 \<le> i \<Longrightarrow> i < int (length xs) \<and> F (xs ! nat i) = Some v"
  by (auto simp: float_at_def bindE_eq_Inr py_index_nonneg py_float_def split: if_splits option.splits)

lemma Position_init_eq_Inr:
  "Position_init F xs = Inr p \<Longrightarrow>
     3 \<le> length xs \<and> F (xs ! 0) = Some (pos_x p) \<and> F (xs ! 1) = Some (pos_y p) \<and> F (xs ! 2) = Some (pos_z p)"
  unfolding Position_init_def bindE_eq_Inr
  by (auto dest!: float_at_eq_Inr)

lemma Position_init_slice_length:
  assumes "Position_init F (py_slice xs i (i + MSL)) = Inr p" "0 \<le> i"
  shows "i + 3 \<le> int (length xs)"
proof -
  have "3 \<le> length (py_slice xs i (i + MSL))"
    using Position_init_eq_Inr [OF assms(1)] by simp
  then show ?thesis using assms(2)
    by (simp add: py_slice_nonneg MSL_def)
qed

lemma Trackable_markers_Inr:
  "Trackable_markers F xs n idx = Inr (ps, idx') \<Longrightarrow>
     idx' = idx + MSL * int n \<and> length ps = n \<and>
     (\<forall>k<n. Position_init F (py_slice xs (idx + MSL * int k) (idx + MSL * int k + MSL)) = Inr (ps ! k))"
proof (induction n arbitrary: idx ps)
  case 0
  then show ?case by simp
next
  case (Suc n)
  from Suc.prems obtain p qs where
    p: "Position_init F (py_slice xs idx (idx + MSL)) = Inr p"
    and rec: "Trackable_markers F xs n (idx + MSL) = Inr (qs, idx')"
    and ps: "ps = p # qs"
    by (auto simp: bindE_eq_Inr)
  note IH = Suc.IH [OF rec]
  have "Position_init F (py_slice xs (idx + MSL * int k) (idx + MSL * int k + MSL)) = Inr (ps ! k)"
    if "k < Suc n" for k
  proof (cases k)
    case 0
    then show ?thesis using p ps by simp
  next
    case (Suc j)
    with that have "j < n" by simp
    with IH have "Position_init F (py_slice xs (idx + MSL + MSL * int j) (idx + MSL + MSL * int j + MSL)) = Inr (qs ! j)"
      by blast
    then show ?thesis using Suc ps by (simp add: algebra_simps)
  qed
  with IH ps show ?case by (simp add: algebra_simps)
qed

section \<open>The dispatcher: comment rows and handedness\<close>

lemma read_trackables_coord_type:
  "coord_type (fst (read_trackables I F n rest r)) = coord_type r"
proof (induction n arbitrary: rest r)
  case 0
  then show ?case by simp
next
  case (Suc n)
  show ?case
  proof (cases rest)
    case Nil
    then show ?thesis by simp
  next
    case (Cons row rows)
    then show ?thesis using Suc.IH by (simp split: sum.splits)
  qed
qed

text \<open>
  C9. A row whose first field is \<open>comment\<close>, in any case, leaves the \<open>Run\<close> as it was:
  the body of the loop returns the same \<open>Run\<close> and goes on with the next row, so the
  load of the whole file is the load of the other rows.
\<close>

theorem comment_row_no_effect:
  assumes "py_index flds 0 = Inr f0" and "lower f0 = ''comment''"
  shows "ReadFile_body I F r flds rest = (r, Continue rest) \<and>
         ReadFile I F r (flds # rest) = ReadFile I F r rest"
  using assms by (simp add: ReadFile_body_def)

theorem comment_row_no_effect_witness:
  "py_index [''Comment'', ''ignored''] 0 = Inr ''Comment'' \<and> lower ''Comment'' = ''comment'' \<and>
   ReadFile_body dec_int dec_float (Run_init\<lparr>framecount := 42\<rparr>) [''Comment'', ''ignored'']
       [[''righthanded'']]
     = (Run_init\<lparr>framecount := 42\<rparr>, Continue [[''righthanded'']]) \<and>
   ReadFile dec_int dec_float (Run_init\<lparr>framecount := 42\<rparr>) [[''Comment'', ''ignored''], [''righthanded'']]
     = ReadFile dec_int dec_float (Run_init\<lparr>framecount := 42\<rparr>) [[''righthanded'']]"
proof -
  have h1: "py_index [''Comment'', ''ignored''] 0 = Inr ''Comment''" by code_simp
  have h2: "lower ''Comment'' = ''comment''" by code_simp
  show ?thesis
    using comment_row_no_effect [OF h1 h2, of dec_int dec_float "Run_init\<lparr>framecount := 42\<rparr>"
        "[[''righthanded'']]"] h1 h2
    by simp
qed

text \<open>
  C4. When the first field of a row is, in lower case, neither \<open>comment\<close> nor
  \<open>righthanded\<close>, the body of the loop assigns \<open>LEFT_HANDED\<close> first and handles the tag
  afterwards: it behaves as it does on the \<open>Run\<close> with that assignment made, and the
  \<open>Run\<close> it leaves is left-handed whatever the tag is and whether or not the handling
  raises. A \<open>righthanded\<close> row assigns \<open>RIGHT_HANDED\<close> and nothing else.
\<close>

theorem handedness_fallback:
  assumes "py_index flds 0 = Inr f0"
  shows "(lower f0 \<noteq> ''comment'' \<and> lower f0 \<noteq> ''righthanded'' \<longrightarrow>
            ReadFile_body I F r flds rest
              = ReadFile_body I F (r\<lparr>coord_type := LEFT_HANDED\<rparr>) flds rest \<and>
            coord_type (fst (ReadFile_body I F r flds rest)) = LEFT_HANDED) \<and>
         (lower f0 = ''righthanded'' \<longrightarrow>
            ReadFile_body I F r flds rest = (r\<lparr>coord_type := RIGHT_HANDED\<rparr>, Continue rest))"
proof (intro conjI impI)
  assume "lower f0 \<noteq> ''comment'' \<and> lower f0 \<noteq> ''righthanded''"
  with assms show "ReadFile_body I F r flds rest
      = ReadFile_body I F (r\<lparr>coord_type := LEFT_HANDED\<rparr>) flds rest"
    by (simp add: ReadFile_body_def)
next
  assume "lower f0 \<noteq> ''comment'' \<and> lower f0 \<noteq> ''righthanded''"
  with assms show "coord_type (fst (ReadFile_body I F r flds rest)) = LEFT_HANDED"
    by (simp add: ReadFile_body_def Let_def read_trackables_coord_type split: sum.splits)
next
  assume "lower f0 = ''righthanded''"
  with assms show "ReadFile_body I F r flds rest = (r\<lparr>coord_type := RIGHT_HANDED\<rparr>, Continue rest)"
    by (simp add: ReadFile_body_def)
qed

theorem handedness_fallback_witness:
  "py_index [''Frame'', ''x''] 0 = Inr ''Frame'' \<and>
   lower ''Frame'' \<noteq> ''comment'' \<and> lower ''Frame'' \<noteq> ''righthanded'' \<and>
   coord_type (Run_init :: rat Run) = RIGHT_HANDED \<and>
   coord_type (fst (ReadFile_body dec_int dec_float Run_init [''Frame'', ''x''] [])) = LEFT_HANDED \<and>
   snd (ReadFile_body dec_int dec_float Run_init [''Frame'', ''x''] []) = Raised (ValueError IntLit ''x'') \<and>
   py_index [''RightHanded''] 0 = Inr ''RightHanded'' \<and> lower ''RightHanded'' = ''righthanded'' \<and>
   ReadFile_body dec_int dec_float (Run_init\<lparr>coord_type := LEFT_HANDED\<rparr>) [''RightHanded''] []
     = (Run_init, Continue [])"
proof -
  have h1: "py_index [''Frame'', ''x''] 0 = Inr ''Frame''" by code_simp
  have h2: "lower ''Frame'' \<noteq> ''comment'' \<and> lower ''Frame'' \<noteq> ''righthanded''" by code_simp
  have h3: "coord_type (Run_init :: rat Run) = RIGHT_HANDED" by (simp add: Run_init_def)
  have h4: "snd (ReadFile_body dec_int dec_float Run_init [''Frame'', ''x''] [])
      = Raised (ValueError IntLit ''x'')" by code_simp
  have h5: "py_index [''RightHanded''] 0 = Inr ''RightHanded''" by code_simp
  have h6: "lower ''RightHanded'' = ''righthanded''" by code_simp
  have h7: "(Run_init :: rat Run)\<lparr>coord_type := LEFT_HANDED, coord_type := RIGHT_HANDED\<rparr> = Run_init"
    by (simp add: Run_init_def)
  have a: "coord_type (fst (ReadFile_body dec_int dec_float Run_init [''Frame'', ''x''] [])) = LEFT_HANDED"
    using handedness_fallback [OF h1, of dec_int dec_float Run_init "[]"] h2 by blast
  have b: "ReadFile_body dec_int dec_float (Run_init\<lparr>coord_type := LEFT_HANDED\<rparr>) [''RightHanded''] []
      = (Run_init, Continue [])"
    using handedness_fallback [OF h5, of dec_int dec_float "Run_init\<lparr>coord_type := LEFT_HANDED\<rparr>" "[]"]
      h6 h7 by simp
  show ?thesis using h1 h2 h3 h4 h5 h6 a b by blast
qed

section \<open>Trackable rows\<close>

lemma int_at_eq_Inr:
  "int_at I xs i = Inr v \<Longrightarrow> 0 \<le> i \<Longrightarrow> i < int (length xs) \<and> I (xs ! nat i) = Some v"
  by (auto simp: int_at_def bindE_eq_Inr py_index_nonneg py_int_def split: if_splits option.splits)

lemma py_index_eq_Inr:
  "py_index xs i = Inr v \<Longrightarrow> 0 \<le> i \<Longrightarrow> i < int (length xs) \<and> xs ! nat i = v"
  by (auto simp: py_index_nonneg split: if_splits)

lemma take_eq_length:
  assumes "take n xs = take n ys" "n \<le> length ys"
  shows "n \<le> length xs"
proof -
  have "length (take n xs) = length (take n ys)" using assms(1) by simp
  then show ?thesis using assms(2) by simp
qed

lemma py_index_take_eq:
  assumes "take n xs = take n ys" "n \<le> length ys" "0 \<le> i" "i < int n"
  shows "py_index xs i = py_index ys i"
proof -
  have lx: "n \<le> length xs" by (rule take_eq_length [OF assms(1,2)])
  have "xs ! nat i = take n xs ! nat i" using assms(3,4) by simp
  also have "\<dots> = take n ys ! nat i" by (simp add: assms(1))
  also have "\<dots> = ys ! nat i" using assms(3,4) by simp
  finally show ?thesis using assms lx by (simp add: py_index_nonneg)
qed

lemma py_slice_take_eq:
  assumes "take n xs = take n ys" "0 \<le> i" "i \<le> j" "j \<le> int n"
  shows "py_slice xs i j = py_slice ys i j"
proof -
  have jn: "nat j \<le> n" using assms(4) by linarith
  have d: "nat (j - i) = nat j - nat i" using assms(2,3) by (simp add: nat_diff_distrib)
  have sl: "take (nat (j - i)) (drop (nat i) zs) = drop (nat i) (take (nat j) zs)"
    for zs :: "'a list"
    by (simp add: d drop_take)
  have "take (nat j) xs = take (nat j) (take n xs)" using jn by (simp add: min_absorb1)
  also have "\<dots> = take (nat j) (take n ys)" by (simp only: assms(1))
  also have "\<dots> = take (nat j) ys" using jn by (simp add: min_absorb1)
  finally show ?thesis using assms(2,3) by (simp add: py_slice_nonneg sl)
qed

lemma Trackable_markers_cong:
  assumes "\<forall>k<n. py_slice xs (idx + MSL * int k) (idx + MSL * int k + MSL)
                 = py_slice ys (idx + MSL * int k) (idx + MSL * int k + MSL)"
  shows "Trackable_markers F xs n idx = Trackable_markers F ys n idx"
  using assms
proof (induction n arbitrary: idx)
  case 0
  then show ?case by simp
next
  case (Suc n)
  have h0: "py_slice xs idx (idx + MSL) = py_slice ys idx (idx + MSL)"
    using Suc.prems [rule_format, of 0] by simp
  have "\<forall>k<n. py_slice xs (idx + MSL + MSL * int k) (idx + MSL + MSL * int k + MSL)
             = py_slice ys (idx + MSL + MSL * int k) (idx + MSL + MSL * int k + MSL)"
  proof (intro allI impI)
    fix k assume "k < n"
    then show "py_slice xs (idx + MSL + MSL * int k) (idx + MSL + MSL * int k + MSL)
             = py_slice ys (idx + MSL + MSL * int k) (idx + MSL + MSL * int k + MSL)"
      using Suc.prems [rule_format, of "Suc k"] by (simp add: algebra_simps)
  qed
  then have "Trackable_markers F xs n (idx + MSL) = Trackable_markers F ys n (idx + MSL)"
    by (rule Suc.IH)
  with h0 show ?case by simp
qed

lemma Trackable_init_Inr:
  assumes "Trackable_init I F flds = Inr t"
  shows "\<exists>tag. py_index flds 0 = Inr tag \<and> lower tag = ''trackable''"
    and "py_index flds 1 = Inr (tr_name t)"
    and "int_at I flds 2 = Inr (tr_id t)"
    and "int_at I flds 3 = Inr (tr_num_markers t)"
    and "\<exists>idx. Trackable_markers F flds (nat (tr_num_markers t)) 4 = Inr (tr_markers t, idx)"
  using assms
  by (auto simp: Trackable_init_def bindE_eq_Inr split: if_splits)

lemma Trackable_length:
  assumes "Trackable_init I F flds = Inr t"
  shows "4 + 3 * nat (tr_num_markers t) \<le> length flds"
proof (cases "nat (tr_num_markers t)")
  case 0
  have "3 < int (length flds)"
    using int_at_eq_Inr [OF Trackable_init_Inr(4) [OF assms]] by simp
  with 0 show ?thesis by simp
next
  case (Suc m)
  obtain idx where "Trackable_markers F flds (nat (tr_num_markers t)) 4 = Inr (tr_markers t, idx)"
    using Trackable_init_Inr(5) [OF assms] by blast
  from Trackable_markers_Inr [OF this] Suc
  have "Position_init F (py_slice flds (4 + MSL * int m) (4 + MSL * int m + MSL)) = Inr (tr_markers t ! m)"
    by simp
  then have "4 + MSL * int m + 3 \<le> int (length flds)"
    by (rule Position_init_slice_length) (simp add: MSL_def)
  with Suc show ?thesis by (simp add: MSL_def)
qed

text \<open>
  C6. When \<open>Trackable.__init__\<close> returns on a row whose field 3 is the count \<open>N\<close>, the
  name is field 1, the id field 2, and the loop has run \<open>N\<close> times from offset 4: the
  cursor ends at \<open>4 + 3 N\<close>, the row has at least that many fields, marker \<open>k\<close> is the
  \<open>Position\<close> of the three fields at \<open>4 + 3 k\<close>, and \<open>markers\<close> has length \<open>N\<close>. Nothing
  beyond the first \<open>4 + 3 N\<close> fields is read: every row with the same first \<open>4 + 3 N\<close>
  fields decodes to the same \<open>Trackable\<close>. (\<open>range\<close> of a negative count is empty, so
  \<open>N\<close> is \<open>nat\<close> of the field's value.)
\<close>

theorem Trackable_consumes:
  assumes "Trackable_init I F flds = Inr t"
  shows "py_index flds 1 = Inr (tr_name t) \<and>
         int_at I flds 2 = Inr (tr_id t) \<and>
         int_at I flds 3 = Inr (tr_num_markers t) \<and>
         Trackable_markers F flds (nat (tr_num_markers t)) 4
           = Inr (tr_markers t, 4 + 3 * int (nat (tr_num_markers t))) \<and>
         length (tr_markers t) = nat (tr_num_markers t) \<and>
         (\<forall>k < nat (tr_num_markers t).
            Position_init F (py_slice flds (4 + 3 * int k) (4 + 3 * int k + 3))
              = Inr (tr_markers t ! k)) \<and>
         4 + 3 * nat (tr_num_markers t) \<le> length flds \<and>
         (\<forall>flds'. take (4 + 3 * nat (tr_num_markers t)) flds'
                    = take (4 + 3 * nat (tr_num_markers t)) flds
                  \<longrightarrow> Trackable_init I F flds' = Inr t)"
proof -
  let ?n = "nat (tr_num_markers t)"
  note f = Trackable_init_Inr [OF assms]
  obtain idx where loop: "Trackable_markers F flds ?n 4 = Inr (tr_markers t, idx)"
    using f(5) by blast
  note l = Trackable_markers_Inr [OF loop]
  have idx: "idx = 4 + 3 * int ?n" using l by (simp add: MSL_def)
  have len: "4 + 3 * ?n \<le> length flds" by (rule Trackable_length [OF assms])
  have pos: "\<forall>k < ?n. Position_init F (py_slice flds (4 + 3 * int k) (4 + 3 * int k + 3))
      = Inr (tr_markers t ! k)"
    using l by (simp add: MSL_def)
  have pre: "Trackable_init I F flds' = Inr t"
    if eq: "take (4 + 3 * ?n) flds' = take (4 + 3 * ?n) flds" for flds'
  proof -
    have ix: "py_index flds' i = py_index flds i" if "0 \<le> i" "i < 4" for i
      using py_index_take_eq [OF eq len that(1)] that(2) by simp
    have "\<forall>k < ?n. py_slice flds' (4 + MSL * int k) (4 + MSL * int k + MSL)
                 = py_slice flds (4 + MSL * int k) (4 + MSL * int k + MSL)"
    proof (intro allI impI)
      fix k assume k: "k < ?n"
      have "4 + MSL * int k + MSL \<le> int (4 + 3 * ?n)"
        using k unfolding MSL_def by linarith
      then show "py_slice flds' (4 + MSL * int k) (4 + MSL * int k + MSL)
                 = py_slice flds (4 + MSL * int k) (4 + MSL * int k + MSL)"
        by (intro py_slice_take_eq [OF eq]) (simp_all add: MSL_def)
    qed
    then have "Trackable_markers F flds' ?n 4 = Trackable_markers F flds ?n 4"
      by (rule Trackable_markers_cong)
    moreover have "int_at I flds' 3 = Inr (tr_num_markers t)" "int_at I flds' 2 = Inr (tr_id t)"
      using f(3,4) ix by (simp_all add: int_at_def)
    moreover have "py_index flds' 1 = Inr (tr_name t)" using f(2) ix by simp
    moreover obtain tag where "py_index flds' 0 = Inr tag" "lower tag = ''trackable''"
      using f(1) ix [of 0] by auto
    ultimately show ?thesis
      using loop by (simp add: Trackable_init_def)
  qed
  show ?thesis
    using f(2,3,4) loop idx l len pos pre by simp
qed

theorem Trackable_consumes_witness:
  "Trackable_init dec_int dec_float trackable_row = Inr trackable_value \<and>
   length trackable_row = 4 + 3 * 2 \<and>
   length (tr_markers trackable_value) = 2 \<and>
   Trackable_markers dec_float trackable_row 2 4 = Inr (tr_markers trackable_value, 10) \<and>
   Trackable_init dec_int dec_float (trackable_row @ [''frame'', ''9'']) = Inr trackable_value"
proof -
  have h: "Trackable_init dec_int dec_float trackable_row = Inr trackable_value"
    by code_simp
  have n: "nat (tr_num_markers trackable_value) = 2" by (simp add: trackable_value_def)
  have len: "length trackable_row = 4 + 3 * 2" by (simp add: trackable_row_def)
  note c = Trackable_consumes [OF h, unfolded n]
  have e: "take (4 + 3 * 2) (trackable_row @ [''frame'', ''9'']) = take (4 + 3 * 2) trackable_row"
    using len by simp
  have p: "Trackable_init dec_int dec_float (trackable_row @ [''frame'', ''9'']) = Inr trackable_value"
    using c e by blast
  have l: "length (tr_markers trackable_value) = 2" using c by blast
  have m: "Trackable_markers dec_float trackable_row 2 4 = Inr (tr_markers trackable_value, 10)"
    using c by simp
  show ?thesis using h len l m p by blast
qed

section \<open>The trackable-count block\<close>

lemma read_trackables_all:
  assumes "n \<le> length rest"
    and "\<forall>row \<in> set (take n rest). \<exists>t. Trackable_init I F row = Inr t"
  shows "read_trackables I F n rest r =
           (r\<lparr>trackables := trackables r @ map (\<lambda>row. projr (Trackable_init I F row)) (take n rest)\<rparr>,
            Continue (drop n rest))"
  using assms
proof (induction n arbitrary: rest r)
  case 0
  then show ?case by simp
next
  case (Suc n)
  from Suc.prems(1) obtain row rows where rest: "rest = row # rows"
    by (cases rest) auto
  from Suc.prems(2) rest obtain t where t: "Trackable_init I F row = Inr t"
    by auto
  have "n \<le> length rows" using Suc.prems(1) rest by simp
  moreover have "\<forall>row \<in> set (take n rows). \<exists>t. Trackable_init I F row = Inr t"
    using Suc.prems(2) rest by simp
  ultimately have "read_trackables I F n rows (r\<lparr>trackables := trackables r @ [t]\<rparr>) =
      ((r\<lparr>trackables := trackables r @ [t]\<rparr>)
         \<lparr>trackables := trackables (r\<lparr>trackables := trackables r @ [t]\<rparr>)
            @ map (\<lambda>row. projr (Trackable_init I F row)) (take n rows)\<rparr>,
       Continue (drop n rows))"
    by (rule Suc.IH)
  then show ?case using rest t by simp
qed

text \<open>
  C7. On a row \<open>info, trackablecount, N\<close> (tags in any case) with \<open>N > 0\<close>, followed by
  at least \<open>N\<close> rows that each decode as a \<open>Trackable\<close>, the body of the loop stores
  \<open>N\<close>, appends the \<open>Trackable\<close> of each of the next \<open>N\<close> rows, in order, and leaves the
  rows after them unread: the load goes on with row \<open>N + 1\<close> as an ordinary row.
\<close>

theorem trackablecount_reads_next_rows:
  assumes "py_index flds 0 = Inr f0" and "lower f0 = ''info''"
    and "py_index flds 1 = Inr f1" and "lower f1 = ''trackablecount''"
    and "int_at I flds 2 = Inr N" and "0 < N" and "nat N \<le> length rest"
    and "\<forall>row \<in> set (take (nat N) rest). \<exists>t. Trackable_init I F row = Inr t"
  shows "ReadFile_body I F r flds rest =
           (r\<lparr>coord_type := LEFT_HANDED, trackablecount := N,
              trackables := trackables r
                @ map (\<lambda>row. projr (Trackable_init I F row)) (take (nat N) rest)\<rparr>,
            Continue (drop (nat N) rest)) \<and>
         ReadFile I F r (flds # rest) =
           ReadFile I F
             (r\<lparr>coord_type := LEFT_HANDED, trackablecount := N,
                trackables := trackables r
                  @ map (\<lambda>row. projr (Trackable_init I F row)) (take (nat N) rest)\<rparr>)
             (drop (nat N) rest)"
proof -
  have body: "ReadFile_body I F r flds rest =
      read_trackables I F (nat N) rest (r\<lparr>coord_type := LEFT_HANDED, trackablecount := N\<rparr>)"
    using assms(1-6) by (simp add: ReadFile_body_def)
  have "read_trackables I F (nat N) rest (r\<lparr>coord_type := LEFT_HANDED, trackablecount := N\<rparr>) =
      (r\<lparr>coord_type := LEFT_HANDED, trackablecount := N,
         trackables := trackables r
           @ map (\<lambda>row. projr (Trackable_init I F row)) (take (nat N) rest)\<rparr>,
       Continue (drop (nat N) rest))"
    using read_trackables_all [OF assms(7,8)] by simp
  with body show ?thesis by simp
qed

theorem trackablecount_reads_next_rows_witness:
  "py_index [''Info'', ''TrackableCount'', ''2''] 0 = Inr ''Info'' \<and> lower ''Info'' = ''info'' \<and>
   py_index [''Info'', ''TrackableCount'', ''2''] 1 = Inr ''TrackableCount'' \<and>
   lower ''TrackableCount'' = ''trackablecount'' \<and>
   int_at dec_int [''Info'', ''TrackableCount'', ''2''] 2 = Inr 2 \<and>
   Trackable_init dec_int dec_float trackable_row = Inr trackable_value \<and>
   Trackable_init dec_int dec_float trackable_row2 = Inr trackable_value2 \<and>
   ReadFile_body dec_int dec_float Run_init [''Info'', ''TrackableCount'', ''2'']
       [trackable_row, trackable_row2, [''trackable'', ''x'']] =
     (Run_init\<lparr>coord_type := LEFT_HANDED, trackablecount := 2,
        trackables := [trackable_value, trackable_value2]\<rparr>,
      Continue [[''trackable'', ''x'']])"
proof -
  let ?flds = "[''Info'', ''TrackableCount'', ''2'']"
  let ?rest = "[trackable_row, trackable_row2, [''trackable'', ''x'']]"
  have h1: "py_index ?flds 0 = Inr ''Info''" by code_simp
  have h2: "lower ''Info'' = ''info''" by code_simp
  have h3: "py_index ?flds 1 = Inr ''TrackableCount''" by code_simp
  have h4: "lower ''TrackableCount'' = ''trackablecount''" by code_simp
  have h5: "int_at dec_int ?flds 2 = Inr 2" by code_simp
  have h6: "(0::int) < 2" by simp
  have h7: "nat 2 \<le> length ?rest" by simp
  have t1: "Trackable_init dec_int dec_float trackable_row = Inr trackable_value" by code_simp
  have t2: "Trackable_init dec_int dec_float trackable_row2 = Inr trackable_value2" by code_simp
  have tk: "take (nat 2) ?rest = [trackable_row, trackable_row2]"
    by (simp add: numeral_2_eq_2)
  have dr: "drop (nat 2) ?rest = [[''trackable'', ''x'']]"
    by (simp add: numeral_2_eq_2)
  have h8: "\<forall>row \<in> set (take (nat 2) ?rest). \<exists>t. Trackable_init dec_int dec_float row = Inr t"
    unfolding tk using t1 t2 by simp
  have tr: "trackables (Run_init :: rat Run) = []" by (simp add: Run_init_def)
  have "ReadFile_body dec_int dec_float Run_init ?flds ?rest =
     (Run_init\<lparr>coord_type := LEFT_HANDED, trackablecount := 2,
        trackables := [trackable_value, trackable_value2]\<rparr>,
      Continue [[''trackable'', ''x'']])"
    using trackablecount_reads_next_rows [OF h1 h2 h3 h4 h5 h6 h7 h8, of Run_init,
        unfolded tk dr] t1 t2 tr
    by simp
  then show ?thesis using h1 h2 h3 h4 h5 t1 t2 by blast
qed

section \<open>Frame rows\<close>

lemma Frame_states_Inr:
  "Frame_states I F xs n idx = Inr (ss, idx') \<Longrightarrow>
     idx' = idx + TSL * int n \<and> length ss = n \<and>
     (\<forall>k<n. TrackableState_init I F (py_slice xs (idx + TSL * int k) (idx + TSL * int k + TSL))
              = Inr (ss ! k))"
proof (induction n arbitrary: idx ss)
  case 0
  then show ?case by simp
next
  case (Suc n)
  from Suc.prems obtain s rs where
    s: "TrackableState_init I F (py_slice xs idx (idx + TSL)) = Inr s"
    and rec: "Frame_states I F xs n (idx + TSL) = Inr (rs, idx')"
    and ss: "ss = s # rs"
    by (auto simp: bindE_eq_Inr)
  note IH = Suc.IH [OF rec]
  have "TrackableState_init I F (py_slice xs (idx + TSL * int k) (idx + TSL * int k + TSL))
      = Inr (ss ! k)" if "k < Suc n" for k
  proof (cases k)
    case 0
    then show ?thesis using s ss by simp
  next
    case (Suc j)
    with that have "j < n" by simp
    with IH have "TrackableState_init I F
        (py_slice xs (idx + TSL + TSL * int j) (idx + TSL + TSL * int j + TSL)) = Inr (rs ! j)"
      by blast
    then show ?thesis using Suc ss by (simp add: algebra_simps)
  qed
  with IH ss show ?case by (simp add: algebra_simps)
qed

lemma Marker_init_Inr:
  "Marker_init F ident pos = Inr m \<Longrightarrow>
     marker_id m = ident \<and> Position_init F pos = Inr (marker_pos m)"
  by (auto simp: Marker_init_def bindE_eq_Inr)

lemma Frame_markers_Inr:
  "Frame_markers F xs n idx = Inr (ms, idx') \<Longrightarrow>
     idx' = idx + 4 * int n \<and> length ms = n \<and>
     (\<forall>k<n. Position_init F (py_slice xs (idx + 4 * int k) (idx + 4 * int k + 3))
               = Inr (marker_pos (ms ! k)) \<and>
            (\<exists>s. py_index xs (idx + 4 * int k + 3) = Inr s \<and> marker_id (ms ! k) = Some s))"
proof (induction n arbitrary: idx ms)
  case 0
  then show ?case by simp
next
  case (Suc n)
  from Suc.prems obtain s m rs where
    s: "py_index xs (idx + MSL) = Inr s"
    and m: "Marker_init F (Some s) (py_slice xs idx (idx + MSL)) = Inr m"
    and rec: "Frame_markers F xs n (idx + 4) = Inr (rs, idx')"
    and ms: "ms = m # rs"
    by (auto simp: bindE_eq_Inr)
  note IH = Suc.IH [OF rec]
  note mm = Marker_init_Inr [OF m]
  have "Position_init F (py_slice xs (idx + 4 * int k) (idx + 4 * int k + 3))
           = Inr (marker_pos (ms ! k)) \<and>
        (\<exists>s. py_index xs (idx + 4 * int k + 3) = Inr s \<and> marker_id (ms ! k) = Some s)"
    if "k < Suc n" for k
  proof (cases k)
    case 0
    then show ?thesis using s mm ms by (simp add: MSL_def)
  next
    case (Suc j)
    with that have "j < n" by simp
    with IH have "Position_init F (py_slice xs (idx + 4 + 4 * int j) (idx + 4 + 4 * int j + 3))
           = Inr (marker_pos (rs ! j)) \<and>
        (\<exists>s. py_index xs (idx + 4 + 4 * int j + 3) = Inr s \<and> marker_id (rs ! j) = Some s)"
      by blast
    then show ?thesis using Suc ms by (simp add: algebra_simps)
  qed
  with IH ms show ?case by (simp add: algebra_simps)
qed

lemma Frame_init_Inr:
  assumes "Frame_init I F flds = Inr fr"
  shows "\<exists>tag. py_index flds 0 = Inr tag \<and> lower tag = ''frame''"
    and "int_at I flds 1 = Inr (fr_index fr)"
    and "float_at F flds 2 = Inr (fr_timestamp fr)"
    and "int_at I flds 3 = Inr (fr_trackable_count fr)"
    and "\<exists>idx. Frame_states I F flds (nat (fr_trackable_count fr)) 4
                 = Inr (fr_trackable_states fr, idx) \<and>
               int_at I flds idx = Inr (fr_marker_count fr) \<and>
               (\<exists>idx'. Frame_markers F flds (nat (fr_marker_count fr)) (idx + 1)
                          = Inr (fr_markers fr, idx'))"
  using assms
  by (auto simp: Frame_init_def bindE_eq_Inr split: if_splits)

text \<open>
  C5. When \<open>Frame.__init__\<close> returns on a row with trackable-state count \<open>T\<close> (field 3),
  the first loop has decoded the \<open>T\<close> groups of 11 fields from offset 4 as
  \<open>TrackableState\<close>s, so \<open>trackable_states\<close> has length \<open>T\<close>; the next field, at
  \<open>4 + 11 T\<close>, is the marker count \<open>M\<close>; and marker \<open>i\<close> takes its position from the three
  fields at \<open>5 + 11 T + 4 i\<close> and its id from the fourth, the cursor moving by 4 for each
  marker and ending at \<open>5 + 11 T + 4 M\<close>, so \<open>markers\<close> has length \<open>M\<close>. (A count that
  is not positive gives no iteration: \<open>T\<close> and \<open>M\<close> are \<open>nat\<close> of the fields' values.)
\<close>

theorem Frame_layout:
  assumes "Frame_init I F flds = Inr fr"
  shows "int_at I flds 1 = Inr (fr_index fr) \<and>
         float_at F flds 2 = Inr (fr_timestamp fr) \<and>
         int_at I flds 3 = Inr (fr_trackable_count fr) \<and>
         Frame_states I F flds (nat (fr_trackable_count fr)) 4
           = Inr (fr_trackable_states fr, 4 + 11 * int (nat (fr_trackable_count fr))) \<and>
         length (fr_trackable_states fr) = nat (fr_trackable_count fr) \<and>
         (\<forall>k < nat (fr_trackable_count fr).
            TrackableState_init I F (py_slice flds (4 + 11 * int k) (4 + 11 * int k + 11))
              = Inr (fr_trackable_states fr ! k)) \<and>
         int_at I flds (4 + 11 * int (nat (fr_trackable_count fr))) = Inr (fr_marker_count fr) \<and>
         Frame_markers F flds (nat (fr_marker_count fr))
             (5 + 11 * int (nat (fr_trackable_count fr)))
           = Inr (fr_markers fr,
                  5 + 11 * int (nat (fr_trackable_count fr)) + 4 * int (nat (fr_marker_count fr))) \<and>
         length (fr_markers fr) = nat (fr_marker_count fr) \<and>
         (\<forall>i < nat (fr_marker_count fr).
            Position_init F
                (py_slice flds (5 + 11 * int (nat (fr_trackable_count fr)) + 4 * int i)
                               (5 + 11 * int (nat (fr_trackable_count fr)) + 4 * int i + 3))
              = Inr (marker_pos (fr_markers fr ! i)) \<and>
            (\<exists>s. py_index flds (5 + 11 * int (nat (fr_trackable_count fr)) + 4 * int i + 3) = Inr s \<and>
                 marker_id (fr_markers fr ! i) = Some s))"
proof -
  let ?T = "nat (fr_trackable_count fr)" and ?M = "nat (fr_marker_count fr)"
  note f = Frame_init_Inr [OF assms]
  from f(5) obtain idx idx' where
    st: "Frame_states I F flds ?T 4 = Inr (fr_trackable_states fr, idx)"
    and mc: "int_at I flds idx = Inr (fr_marker_count fr)"
    and mk: "Frame_markers F flds ?M (idx + 1) = Inr (fr_markers fr, idx')"
    by blast
  note s = Frame_states_Inr [OF st]
  have idx: "idx = 4 + 11 * int ?T" using s by (simp add: TSL_def)
  note m = Frame_markers_Inr [OF mk, unfolded idx]
  have idx': "idx' = 5 + 11 * int ?T + 4 * int ?M" using m by simp
  have states: "\<forall>k < ?T.
      TrackableState_init I F (py_slice flds (4 + 11 * int k) (4 + 11 * int k + 11))
        = Inr (fr_trackable_states fr ! k)"
    using s by (simp add: TSL_def)
  have markers: "\<forall>i < ?M.
      Position_init F (py_slice flds (5 + 11 * int ?T + 4 * int i) (5 + 11 * int ?T + 4 * int i + 3))
        = Inr (marker_pos (fr_markers fr ! i)) \<and>
      (\<exists>s. py_index flds (5 + 11 * int ?T + 4 * int i + 3) = Inr s \<and>
           marker_id (fr_markers fr ! i) = Some s)"
    using m by (simp add: add.commute add.left_commute)
  have a: "Frame_states I F flds ?T 4 = Inr (fr_trackable_states fr, 4 + 11 * int ?T)"
    using st idx by simp
  have b: "int_at I flds (4 + 11 * int ?T) = Inr (fr_marker_count fr)"
    using mc idx by simp
  have c: "Frame_markers F flds ?M (5 + 11 * int ?T)
      = Inr (fr_markers fr, 5 + 11 * int ?T + 4 * int ?M)"
    using mk idx idx' by (simp add: add.commute add.left_commute)
  have ls: "length (fr_trackable_states fr) = ?T" using s by simp
  have lm: "length (fr_markers fr) = ?M" using m by simp
  show ?thesis
    using f(2,3,4) a ls states b c lm markers by blast
qed

theorem Frame_layout_witness:
  "Frame_init dec_int dec_float frame_row = Inr frame_value \<and>
   length (fr_trackable_states frame_value) = 1 \<and>
   int_at dec_int frame_row 15 = Inr 2 \<and>
   length (fr_markers frame_value) = 2 \<and>
   Frame_markers dec_float frame_row 2 16 = Inr (fr_markers frame_value, 24) \<and>
   py_index frame_row (16 + 4 * 1 + 3) = Inr ''m2'' \<and>
   marker_id (fr_markers frame_value ! 1) = Some ''m2''"
proof -
  have h: "Frame_init dec_int dec_float frame_row = Inr frame_value" by code_simp
  have T: "nat (fr_trackable_count frame_value) = 1" by (simp add: frame_value_def)
  have M: "nat (fr_marker_count frame_value) = 2" by (simp add: frame_value_def)
  note c = Frame_layout [OF h, unfolded T M]
  have a: "length (fr_trackable_states frame_value) = 1" using c by blast
  have b: "int_at dec_int frame_row 15 = Inr 2"
    using c by (simp add: frame_value_def)
  have d: "length (fr_markers frame_value) = 2" using c by blast
  have e: "Frame_markers dec_float frame_row 2 16 = Inr (fr_markers frame_value, 24)"
    using c by simp
  have g: "py_index frame_row (16 + 4 * 1 + 3) = Inr ''m2''" by code_simp
  have i: "marker_id (fr_markers frame_value ! 1) = Some ''m2''" by (simp add: frame_value_def)
  show ?thesis using h a b d e g i by blast
qed

section \<open>TrackableFrame rows\<close>

lemma TrackableMarker_init_Inr:
  "TrackableMarker_init F ident pos trk qual = Inr m \<Longrightarrow>
     marker_id m = ident \<and> Position_init F pos = Inr (marker_pos m) \<and>
     tracked m = trk \<and> quality m = qual"
  by (auto simp: TrackableMarker_init_def Marker_init_def bindE_eq_Inr)

lemma TrackableFrame_markers_Inr:
  "TrackableFrame_markers F xs M n i idx = Inr (ms, idx') \<Longrightarrow>
     idx' = idx + MSL * int n \<and> length ms = n \<and>
     (\<forall>k<n.
        py_index xs (idx + MSL * int k + (M - (i + int k)) * MSL + M * MSL + (i + int k))
          = Inr (tracked (ms ! k)) \<and>
        py_index xs (idx + MSL * int k + (M - (i + int k)) * MSL + M * MSL + M + (i + int k))
          = Inr (quality (ms ! k)) \<and>
        Position_init F (py_slice xs (idx + MSL * int k) (idx + MSL * int k + MSL))
          = Inr (marker_pos (ms ! k)) \<and>
        marker_id (ms ! k) = None)"
proof (induction n arbitrary: i idx ms)
  case 0
  then show ?case by simp
next
  case (Suc n)
  from Suc.prems obtain trk qual m rs where
    trk: "py_index xs (idx + (M - i) * MSL + M * MSL + i) = Inr trk"
    and qual: "py_index xs (idx + (M - i) * MSL + M * MSL + M + i) = Inr qual"
    and m: "TrackableMarker_init F None (py_slice xs idx (idx + MSL)) trk qual = Inr m"
    and rec: "TrackableFrame_markers F xs M n (i + 1) (idx + MSL) = Inr (rs, idx')"
    and ms: "ms = m # rs"
    by (auto simp: bindE_eq_Inr)
  note IH = Suc.IH [OF rec]
  note mm = TrackableMarker_init_Inr [OF m]
  have "py_index xs (idx + MSL * int k + (M - (i + int k)) * MSL + M * MSL + (i + int k))
          = Inr (tracked (ms ! k)) \<and>
        py_index xs (idx + MSL * int k + (M - (i + int k)) * MSL + M * MSL + M + (i + int k))
          = Inr (quality (ms ! k)) \<and>
        Position_init F (py_slice xs (idx + MSL * int k) (idx + MSL * int k + MSL))
          = Inr (marker_pos (ms ! k)) \<and>
        marker_id (ms ! k) = None"
    if "k < Suc n" for k
  proof (cases k)
    case 0
    then show ?thesis using trk qual mm ms by simp
  next
    case (Suc j)
    with that have "j < n" by simp
    with IH have
      "py_index xs (idx + MSL + MSL * int j + (M - (i + 1 + int j)) * MSL + M * MSL + (i + 1 + int j))
          = Inr (tracked (rs ! j)) \<and>
       py_index xs (idx + MSL + MSL * int j + (M - (i + 1 + int j)) * MSL + M * MSL + M + (i + 1 + int j))
          = Inr (quality (rs ! j)) \<and>
       Position_init F (py_slice xs (idx + MSL + MSL * int j) (idx + MSL + MSL * int j + MSL))
          = Inr (marker_pos (rs ! j)) \<and>
       marker_id (rs ! j) = None"
      by blast
    then show ?thesis using Suc ms by (simp add: algebra_simps)
  qed
  with IH ms show ?case by (simp add: algebra_simps)
qed

lemma TrackableFrame_ptcld_Inr:
  "TrackableFrame_ptcld F xs n idx = Inr (ms, idx') \<Longrightarrow>
     idx' = idx + MSL * int n \<and> length ms = n \<and>
     (\<forall>k<n. Marker_init F None (py_slice xs (idx + MSL * int k) (idx + MSL * int k + MSL))
              = Inr (ms ! k))"
proof (induction n arbitrary: idx ms)
  case 0
  then show ?case by simp
next
  case (Suc n)
  from Suc.prems obtain m rs where
    m: "Marker_init F None (py_slice xs idx (idx + MSL)) = Inr m"
    and rec: "TrackableFrame_ptcld F xs n (idx + MSL) = Inr (rs, idx')"
    and ms: "ms = m # rs"
    by (auto simp: bindE_eq_Inr)
  note IH = Suc.IH [OF rec]
  have "Marker_init F None (py_slice xs (idx + MSL * int k) (idx + MSL * int k + MSL)) = Inr (ms ! k)"
    if "k < Suc n" for k
  proof (cases k)
    case 0
    then show ?thesis using m ms by simp
  next
    case (Suc j)
    with that have "j < n" by simp
    with IH have "Marker_init F None
        (py_slice xs (idx + MSL + MSL * int j) (idx + MSL + MSL * int j + MSL)) = Inr (rs ! j)"
      by blast
    then show ?thesis using Suc ms by (simp add: algebra_simps)
  qed
  with IH ms show ?case by (simp add: algebra_simps)
qed

lemma TrackableFrame_init_Inr:
  assumes "TrackableFrame_init I F flds = Inr tf"
  shows "int_at I flds 6 = Inr (tf_marker_count tf)"
    and "\<exists>idx idx'.
           TrackableFrame_markers F flds (tf_marker_count tf) (nat (tf_marker_count tf)) 0 7
             = Inr (tf_markers tf, idx) \<and>
           TrackableFrame_ptcld F flds (nat (tf_marker_count tf)) idx
             = Inr (tf_ptcld_markers tf, idx') \<and>
           float_at F flds (idx' + 2 * tf_marker_count tf) = Inr (tf_mean_error tf)"
  using assms
  by (auto simp: TrackableFrame_init_def bindE_eq_Inr)

lemma TrackableFrame_passes:
  assumes "TrackableFrame_init I F flds = Inr tf"
  shows "TrackableFrame_markers F flds (tf_marker_count tf) (nat (tf_marker_count tf)) 0 7
           = Inr (tf_markers tf, 7 + 3 * int (nat (tf_marker_count tf)))"
    and "TrackableFrame_ptcld F flds (nat (tf_marker_count tf))
             (7 + 3 * int (nat (tf_marker_count tf)))
           = Inr (tf_ptcld_markers tf,
                  7 + 3 * int (nat (tf_marker_count tf)) + 3 * int (nat (tf_marker_count tf)))"
    and "float_at F flds
           (7 + 3 * int (nat (tf_marker_count tf)) + 3 * int (nat (tf_marker_count tf))
              + 2 * tf_marker_count tf)
           = Inr (tf_mean_error tf)"
proof -
  let ?M = "tf_marker_count tf" and ?n = "nat (tf_marker_count tf)"
  from TrackableFrame_init_Inr(2) [OF assms] obtain idx idx' where
    p1: "TrackableFrame_markers F flds ?M ?n 0 7 = Inr (tf_markers tf, idx)"
    and p2: "TrackableFrame_ptcld F flds ?n idx = Inr (tf_ptcld_markers tf, idx')"
    and me: "float_at F flds (idx' + 2 * ?M) = Inr (tf_mean_error tf)"
    by blast
  have idx: "idx = 7 + 3 * int ?n"
    using TrackableFrame_markers_Inr [OF p1] by (simp add: MSL_def)
  have idx': "idx' = 7 + 3 * int ?n + 3 * int ?n"
    using TrackableFrame_ptcld_Inr [OF p2] idx by (simp add: MSL_def)
  show "TrackableFrame_markers F flds ?M ?n 0 7 = Inr (tf_markers tf, 7 + 3 * int ?n)"
    using p1 idx by simp
  show "TrackableFrame_ptcld F flds ?n (7 + 3 * int ?n)
      = Inr (tf_ptcld_markers tf, 7 + 3 * int ?n + 3 * int ?n)"
    using p2 idx idx' by simp
  show "float_at F flds (7 + 3 * int ?n + 3 * int ?n + 2 * ?M) = Inr (tf_mean_error tf)"
    using me idx' by simp
qed

text \<open>
  C3. When \<open>TrackableFrame.__init__\<close> returns on a row with marker count \<open>M\<close> (field 6),
  the first pass from the cursor 7 ends with the cursor at \<open>7 + 3 M\<close>; the second pass
  from there decodes the next \<open>M\<close> groups of three fields, in order, as markers without
  id, so \<open>ptcld_markers\<close> has length \<open>M\<close>, and ends with the cursor at \<open>7 + 3 M + 3 M\<close>;
  and \<open>mean_error\<close> is \<open>float\<close> of the field \<open>2 M\<close> past that cursor. (The passes run
  \<open>nat M\<close> times, which is \<open>M\<close> for a count.)
\<close>

theorem TrackableFrame_second_pass:
  assumes "TrackableFrame_init I F flds = Inr tf"
  shows "TrackableFrame_markers F flds (tf_marker_count tf) (nat (tf_marker_count tf)) 0 7
           = Inr (tf_markers tf, 7 + 3 * int (nat (tf_marker_count tf))) \<and>
         TrackableFrame_ptcld F flds (nat (tf_marker_count tf))
             (7 + 3 * int (nat (tf_marker_count tf)))
           = Inr (tf_ptcld_markers tf,
                  7 + 3 * int (nat (tf_marker_count tf)) + 3 * int (nat (tf_marker_count tf))) \<and>
         length (tf_ptcld_markers tf) = nat (tf_marker_count tf) \<and>
         (\<forall>k < nat (tf_marker_count tf).
            Marker_init F None
                (py_slice flds (7 + 3 * int (nat (tf_marker_count tf)) + 3 * int k)
                               (7 + 3 * int (nat (tf_marker_count tf)) + 3 * int k + 3))
              = Inr (tf_ptcld_markers tf ! k)) \<and>
         float_at F flds
           (7 + 3 * int (nat (tf_marker_count tf)) + 3 * int (nat (tf_marker_count tf))
              + 2 * tf_marker_count tf)
           = Inr (tf_mean_error tf)"
proof -
  note p = TrackableFrame_passes [OF assms]
  note l = TrackableFrame_ptcld_Inr [OF p(2)]
  have len: "length (tf_ptcld_markers tf) = nat (tf_marker_count tf)" using l by simp
  have each: "\<forall>k < nat (tf_marker_count tf).
      Marker_init F None
          (py_slice flds (7 + 3 * int (nat (tf_marker_count tf)) + 3 * int k)
                         (7 + 3 * int (nat (tf_marker_count tf)) + 3 * int k + 3))
        = Inr (tf_ptcld_markers tf ! k)"
    using l by (simp add: MSL_def)
  show ?thesis using p len each by blast
qed

theorem TrackableFrame_second_pass_witness:
  "TrackableFrame_init dec_int dec_float tf_row = Inr tf_value \<and>
   TrackableFrame_markers dec_float tf_row 2 2 0 7 = Inr (tf_markers tf_value, 7 + 3 * 2) \<and>
   TrackableFrame_ptcld dec_float tf_row 2 13 = Inr (tf_ptcld_markers tf_value, 19) \<and>
   length (tf_ptcld_markers tf_value) = 2 \<and>
   float_at dec_float tf_row (19 + 2 * 2) = Inr (1 / 8)"
proof -
  have h: "TrackableFrame_init dec_int dec_float tf_row = Inr tf_value" by code_simp
  have M: "tf_marker_count tf_value = 2" by (simp add: tf_value_def)
  have me: "tf_mean_error tf_value = 1 / 8" by (simp add: tf_value_def)
  note c = TrackableFrame_second_pass [OF h, unfolded M me]
  have a: "TrackableFrame_markers dec_float tf_row 2 2 0 7 = Inr (tf_markers tf_value, 7 + 3 * 2)"
    using c by simp
  have b: "TrackableFrame_ptcld dec_float tf_row 2 13 = Inr (tf_ptcld_markers tf_value, 19)"
    using c by simp
  have d: "length (tf_ptcld_markers tf_value) = 2" using c by simp
  have e: "float_at dec_float tf_row (19 + 2 * 2) = Inr (1 / 8)" using c by simp
  show ?thesis using h a b d e by blast
qed

text \<open>
  C1, as stated, does not hold: the offsets of \<open>tracked\<close> and \<open>quality\<close> are computed from
  \<open>idx\<close>, which the loop has already advanced by 3 for every earlier marker, not from
  the cursor before the loop. In \<open>tf_row\<close> (two markers) the \<open>tracked\<close> of marker 1 is
  field 20 and its \<open>quality\<close> field 22, while the offsets of the claim, 17 and 19, hold a
  coordinate of the point cloud and the \<open>tracked\<close> of marker 0.
\<close>

theorem tracked_offset_counterexample:
  "TrackableFrame_init dec_int dec_float tf_row = Inr tf_value \<and>
   tracked (tf_markers tf_value ! 1) = ''t1'' \<and>
   py_index tf_row (7 + (2 - 1) * 3 + 2 * 3 + 1) = Inr ''14.5'' \<and>
   py_index tf_row 20 = Inr ''t1'' \<and>
   quality (tf_markers tf_value ! 1) = ''q1'' \<and>
   py_index tf_row (7 + (2 - 1) * 3 + 2 * 3 + 2 + 1) = Inr ''t0'' \<and>
   py_index tf_row 22 = Inr ''q1''"
  by code_simp

text \<open>
  C1, amended. When \<open>TrackableFrame.__init__\<close> returns on a row with marker count \<open>M\<close>,
  there are \<open>M\<close> trackable markers, and for every \<open>i < M\<close> marker \<open>i\<close> has no id, its
  position is decoded from the three fields at the cursor \<open>7 + 3 i\<close> of iteration \<open>i\<close>,
  its \<open>tracked\<close> is the field at that cursor \<open>+ (M - i) * 3 + M * 3 + i\<close>, which is
  \<open>7 + 6 M + i\<close>, and its \<open>quality\<close> the field \<open>M\<close> further, at \<open>7 + 7 M + i\<close>.
\<close>

theorem tracked_quality_offsets:
  assumes "TrackableFrame_init I F flds = Inr tf" and "i < nat (tf_marker_count tf)"
  shows "length (tf_markers tf) = nat (tf_marker_count tf) \<and>
         marker_id (tf_markers tf ! i) = None \<and>
         Position_init F (py_slice flds (7 + 3 * int i) (7 + 3 * int i + 3))
           = Inr (marker_pos (tf_markers tf ! i)) \<and>
         py_index flds
             ((7 + 3 * int i) + (tf_marker_count tf - int i) * 3 + tf_marker_count tf * 3 + int i)
           = Inr (tracked (tf_markers tf ! i)) \<and>
         py_index flds
             ((7 + 3 * int i) + (tf_marker_count tf - int i) * 3 + tf_marker_count tf * 3
                + tf_marker_count tf + int i)
           = Inr (quality (tf_markers tf ! i)) \<and>
         py_index flds (7 + 6 * tf_marker_count tf + int i) = Inr (tracked (tf_markers tf ! i)) \<and>
         py_index flds (7 + 7 * tf_marker_count tf + int i) = Inr (quality (tf_markers tf ! i))"
proof -
  let ?M = "tf_marker_count tf"
  note l = TrackableFrame_markers_Inr [OF TrackableFrame_passes(1) [OF assms(1)]]
  have len: "length (tf_markers tf) = nat ?M" using l by simp
  from l assms(2) have k:
    "py_index flds (7 + MSL * int i + (?M - (0 + int i)) * MSL + ?M * MSL + (0 + int i))
       = Inr (tracked (tf_markers tf ! i))"
    "py_index flds (7 + MSL * int i + (?M - (0 + int i)) * MSL + ?M * MSL + ?M + (0 + int i))
       = Inr (quality (tf_markers tf ! i))"
    "Position_init F (py_slice flds (7 + MSL * int i) (7 + MSL * int i + MSL))
       = Inr (marker_pos (tf_markers tf ! i))"
    "marker_id (tf_markers tf ! i) = None"
    by blast+
  have t: "py_index flds ((7 + 3 * int i) + (?M - int i) * 3 + ?M * 3 + int i)
      = Inr (tracked (tf_markers tf ! i))"
    using k(1) by (simp add: MSL_def)
  have q: "py_index flds ((7 + 3 * int i) + (?M - int i) * 3 + ?M * 3 + ?M + int i)
      = Inr (quality (tf_markers tf ! i))"
    using k(2) by (simp add: MSL_def)
  have p: "Position_init F (py_slice flds (7 + 3 * int i) (7 + 3 * int i + 3))
      = Inr (marker_pos (tf_markers tf ! i))"
    using k(3) by (simp add: MSL_def)
  have e1: "(7 + 3 * int i) + (?M - int i) * 3 + ?M * 3 + int i = 7 + 6 * ?M + int i"
    by simp
  have e2: "(7 + 3 * int i) + (?M - int i) * 3 + ?M * 3 + ?M + int i = 7 + 7 * ?M + int i"
    by simp
  have t': "py_index flds (7 + 6 * ?M + int i) = Inr (tracked (tf_markers tf ! i))"
    using t unfolding e1 .
  have q': "py_index flds (7 + 7 * ?M + int i) = Inr (quality (tf_markers tf ! i))"
    using q unfolding e2 .
  show ?thesis using len k(4) p t q t' q' by blast
qed

theorem tracked_quality_offsets_witness:
  "TrackableFrame_init dec_int dec_float tf_row = Inr tf_value \<and>
   (1::nat) < nat (tf_marker_count tf_value) \<and>
   length (tf_markers tf_value) = 2 \<and>
   py_index tf_row (7 + 6 * 2 + 1) = Inr (tracked (tf_markers tf_value ! 1)) \<and>
   py_index tf_row (7 + 7 * 2 + 1) = Inr (quality (tf_markers tf_value ! 1)) \<and>
   tracked (tf_markers tf_value ! 1) = ''t1'' \<and> quality (tf_markers tf_value ! 1) = ''q1''"
proof -
  have h: "TrackableFrame_init dec_int dec_float tf_row = Inr tf_value" by code_simp
  have M: "tf_marker_count tf_value = 2" by (simp add: tf_value_def)
  have i: "(1::nat) < nat (tf_marker_count tf_value)" by (simp add: M)
  note c = tracked_quality_offsets [OF h i, unfolded M]
  have a: "length (tf_markers tf_value) = 2" using c by simp
  have b: "py_index tf_row (7 + 6 * 2 + 1) = Inr (tracked (tf_markers tf_value ! 1))"
    using c by simp
  have d: "py_index tf_row (7 + 7 * 2 + 1) = Inr (quality (tf_markers tf_value ! 1))"
    using c by simp
  have e: "tracked (tf_markers tf_value ! 1) = ''t1'' \<and> quality (tf_markers tf_value ! 1) = ''q1''"
    by (simp add: tf_value_def)
  show ?thesis using h i a b d e by blast
qed

text \<open>
  C2, as stated, does not hold: with two markers the claim puts \<open>mean_error\<close> at
  \<open>7 + 7 * 2 + 2 * 2 = 25\<close>. The row \<open>tf_row\<close> has 24 fields and decodes; with two more
  fields appended it decodes to the same value, whose \<open>mean_error\<close> is the field at 23
  and not the one at 25.
\<close>

theorem mean_error_offset_counterexample:
  "TrackableFrame_init dec_int dec_float tf_row = Inr tf_value \<and>
   py_index tf_row (7 + 7 * 2 + 2 * 2) = Inl IndexError \<and>
   TrackableFrame_init dec_int dec_float (tf_row @ [''9'', ''9.75'']) = Inr tf_value \<and>
   tf_mean_error tf_value = 1 / 8 \<and>
   float_at dec_float (tf_row @ [''9'', ''9.75'']) (7 + 7 * 2 + 2 * 2) = Inr (39 / 4) \<and>
   float_at dec_float (tf_row @ [''9'', ''9.75'']) (7 + 6 * 2 + 2 * 2) = Inr (1 / 8)"
  by code_simp

text \<open>
  C2, amended. When \<open>TrackableFrame.__init__\<close> returns on a row with marker count \<open>M\<close>,
  \<open>mean_error\<close> is \<open>float\<close> of the field at \<open>7 + 6 M + 2 M\<close>: the two passes move the
  cursor by \<open>3 M\<close> each, and the field read is \<open>2 M\<close> past it.
\<close>

theorem mean_error_offset:
  assumes "TrackableFrame_init I F flds = Inr tf" and "0 \<le> tf_marker_count tf"
  shows "float_at F flds (7 + 6 * tf_marker_count tf + 2 * tf_marker_count tf)
           = Inr (tf_mean_error tf)"
  using TrackableFrame_passes(3) [OF assms(1)] assms(2) by simp

theorem mean_error_offset_witness:
  "TrackableFrame_init dec_int dec_float tf_row = Inr tf_value \<and>
   0 \<le> tf_marker_count tf_value \<and>
   float_at dec_float tf_row (7 + 6 * 2 + 2 * 2) = Inr (tf_mean_error tf_value) \<and>
   tf_mean_error tf_value = 1 / 8"
proof -
  have h: "TrackableFrame_init dec_int dec_float tf_row = Inr tf_value" by code_simp
  have M: "tf_marker_count tf_value = 2" by (simp add: tf_value_def)
  have p: "0 \<le> tf_marker_count tf_value" by (simp add: M)
  have a: "float_at dec_float tf_row (7 + 6 * 2 + 2 * 2) = Inr (tf_mean_error tf_value)"
    using mean_error_offset [OF h p, unfolded M] by simp
  have b: "tf_mean_error tf_value = 1 / 8" by (simp add: tf_value_def)
  show ?thesis using h p a b by blast
qed

end
